theory Spec2Isabelle
  imports Complex_Main "HOL-Library.Log_Nat"
begin

section \<open>JavaScript numbers and strings\<close>

text \<open>
  A JavaScript \<open>number\<close> is an IEEE 754 double: a finite value, one of the two
  infinities, or NaN. The finite value is carried as the real number it
  denotes. The result of an arithmetic operation is the exact result rounded
  to the nearest double, ties to the even mantissa. The sign of zero is not
  modelled.
\<close>

datatype number = Num real | PosInfinity | NegInfinity | NaN

text \<open>
  \<open>log2floor x\<close> is, for positive \<open>x\<close>, the integer \<open>e\<close> with
  \<open>2^e \<le> x < 2^(e+1)\<close>, computed from the bit length of the integer part of
  \<open>x\<close> (or of \<open>1/x\<close> when \<open>x < 1\<close>).
\<close>

definition log2floor :: "real \<Rightarrow> int" where
  "log2floor x =
     (if 1 \<le> x then int (floorlog 2 (nat \<lfloor>x\<rfloor>)) - 1
      else - int (floorlog 2 (nat (\<lceil>1 / x\<rceil> - 1))))"

text \<open>The nearest integer, a tie going to the even one.\<close>

definition roundTiesToEven :: "real \<Rightarrow> int" where
  "roundTiesToEven t =
     (let f = \<lfloor>t\<rfloor>; r = t - of_int f
      in if r < 1 / 2 then f else if 1 / 2 < r then f + 1 else if even f then f else f + 1)"

text \<open>
  The distance between neighbouring doubles at \<open>x\<close>: a double has 53
  significant bits, and below \<open>2^-1022\<close> (the subnormal range) the spacing
  stays \<open>2^-1074\<close>.
\<close>

definition ulp :: "real \<Rightarrow> real" where
  "ulp x = 2 powi (max (log2floor \<bar>x\<bar>) (- 1022) - 52)"

definition roundToDouble :: "real \<Rightarrow> real" where
  "roundToDouble x = (if x = 0 then 0 else of_int (roundTiesToEven (x / ulp x)) * ulp x)"

text \<open>
  The number an operation delivers when its exact result is \<open>x\<close>: the rounded
  value, or an infinity when the rounded value is beyond the largest double.
\<close>

definition toNumber :: "real \<Rightarrow> number" where
  "toNumber x =
     (let v = roundToDouble x
      in if 2 ^ 1024 \<le> v then PosInfinity
         else if v \<le> - (2 ^ 1024) then NegInfinity
         else Num v)"

fun js_div :: "number \<Rightarrow> number \<Rightarrow> number" where
  "js_div (Num x) (Num y) =
     (if y = 0 then (if x = 0 then NaN else if 0 < x then PosInfinity else NegInfinity)
      else toNumber (x / y))"
| "js_div (Num x) PosInfinity = Num 0"
| "js_div (Num x) NegInfinity = Num 0"
| "js_div PosInfinity (Num y) = (if 0 \<le> y then PosInfinity else NegInfinity)"
| "js_div NegInfinity (Num y) = (if 0 \<le> y then NegInfinity else PosInfinity)"
| "js_div _ _ = NaN"

fun js_mul :: "number \<Rightarrow> number \<Rightarrow> number" where
  "js_mul (Num x) (Num y) = toNumber (x * y)"
| "js_mul NaN _ = NaN"
| "js_mul _ NaN = NaN"
| "js_mul (Num x) PosInfinity =
     (if x = 0 then NaN else if 0 < x then PosInfinity else NegInfinity)"
| "js_mul (Num x) NegInfinity =
     (if x = 0 then NaN else if 0 < x then NegInfinity else PosInfinity)"
| "js_mul PosInfinity (Num y) =
     (if y = 0 then NaN else if 0 < y then PosInfinity else NegInfinity)"
| "js_mul NegInfinity (Num y) =
     (if y = 0 then NaN else if 0 < y then NegInfinity else PosInfinity)"
| "js_mul PosInfinity PosInfinity = PosInfinity"
| "js_mul NegInfinity NegInfinity = PosInfinity"
| "js_mul PosInfinity NegInfinity = NegInfinity"
| "js_mul NegInfinity PosInfinity = NegInfinity"

text \<open>
  A text that the code inspects character by character (the quantum key field)
  is a list of UTF-16 code units. \<open>isWhiteSpace\<close> is the class \<open>\s\<close> of a
  regular expression, which is also what \<open>parseInt\<close> skips at the start.
\<close>

type_synonym jsstring = "nat list"

definition isWhiteSpace :: "nat \<Rightarrow> bool" where
  "isWhiteSpace c =
     (c \<in> {0x09, 0x0A, 0x0B, 0x0C, 0x0D, 0x20, 0xA0, 0x1680, 0x2028, 0x2029,
            0x202F, 0x205F, 0x3000, 0xFEFF} \<or> (0x2000 \<le> c \<and> c \<le> 0x200A))"

text \<open>The separator class \<open>[\s,]\<close> of \<open>parseKey\<close>.\<close>

definition isSeparator :: "nat \<Rightarrow> bool" where
  "isSeparator c = (isWhiteSpace c \<or> c = 0x2C)"

text \<open>
  \<open>keyStr.split(/[\s,]+/)\<close>: the text is cut at every maximal run of
  separators; a run at the very start or end leaves an empty string there, and
  a text without separators is returned whole (the empty text gives \<open>[""]\<close>).
  \<open>splitFrom inRun cur rest\<close> scans \<open>rest\<close> with the piece under construction
  \<open>cur\<close>; \<open>inRun\<close> says that the previous character was a separator.
\<close>

fun splitFrom :: "bool \<Rightarrow> jsstring \<Rightarrow> jsstring \<Rightarrow> jsstring list" where
  "splitFrom inRun cur [] = [cur]"
| "splitFrom inRun cur (c # cs) =
     (if isSeparator c then
        (if inRun then splitFrom True cur cs else cur # splitFrom True [] cs)
      else splitFrom False (cur @ [c]) cs)"

definition splitSeparators :: "jsstring \<Rightarrow> jsstring list" where
  "splitSeparators keyStr = splitFrom False [] keyStr"

text \<open>
  \<open>parseInt(s, 10)\<close>: skip leading white space, read an optional sign, then
  the longest run of decimal digits; no digit gives NaN, otherwise the result
  is the number for the integer read.
\<close>

definition isDigit :: "nat \<Rightarrow> bool" where
  "isDigit c = (0x30 \<le> c \<and> c \<le> 0x39)"

definition digitsValue :: "jsstring \<Rightarrow> int" where
  "digitsValue ds = foldl (\<lambda>acc d. 10 * acc + (int d - 0x30)) 0 ds"

definition parseInt10 :: "jsstring \<Rightarrow> number" where
  "parseInt10 s =
     (let t = dropWhile isWhiteSpace s;
          negative = (t \<noteq> [] \<and> hd t = 0x2D);
          u = (if t \<noteq> [] \<and> (hd t = 0x2B \<or> hd t = 0x2D) then tl t else t);
          ds = takeWhile isDigit u
      in if ds = [] then NaN
         else toNumber (of_int (if negative then - digitsValue ds else digitsValue ds)))"

text \<open>Template literals print a length in decimal.\<close>

function decimal :: "nat \<Rightarrow> string" where
  "decimal n =
     (if n < 10 then [''0123456789'' ! n]
      else decimal (n div 10) @ [''0123456789'' ! (n mod 10)])"
  by pat_completeness auto
termination
  by (relation "measure id") auto

section \<open>Results delivered by the simulation service\<close>

text \<open>
  The TypeScript interfaces \<open>BB84Result\<close>, \<open>CHSHResult\<close> and \<open>E91Result\<close>
  (types file). Both result interfaces declare \<open>is_secure\<close>, \<open>eve_detected\<close>,
  the two sifted keys and the execution metadata; these shared fields are
  collected in the parent record \<open>SimResult\<close>. A result arrives as JSON, so each
  \<open>number\<close> in it is a finite number; it is modelled as a \<open>real\<close> (metrics) or an
  \<open>int\<close> (key bits). The circuit description is not read by any function
  modelled here and is left out.
\<close>

record SimResult =
  circuit_depth :: int
  sifted_alice_key :: "int list"
  sifted_bob_key :: "int list"
  is_secure :: bool
  eve_detected :: bool
  execution_time_ms :: real

record BB84Result = SimResult +
  alice_bits :: "int list"
  alice_bases :: "string list"
  bob_bases :: "string list"
  bob_measurements :: "int list"
  matching_indices :: "int list"
  eve_intercepted_indices :: "int list option"
  eve_bases :: "string list option"
  eve_measurements :: "int list option"
  qber :: real
  information_leakage :: real
  key_efficiency :: real
  shots_used :: int

record CHSHResult =
  s_parameter :: real
  classical_bound :: real
  quantum_max :: real
  violates_classical :: bool
  expectation_values :: "(string \<times> real) list"

record E91Result = SimResult +
  alice_angles_used :: "real list"
  bob_angles_used :: "real list"
  chsh_result :: CHSHResult
  key_match_rate :: real
  shots_per_combination :: int

section \<open>Security analysis panel (SecurityAnalysis.tsx)\<close>

text \<open>
  The panel receives \<open>result\<close> and \<open>protocol\<close>. Its two call sites (the BB84 page
  and the E91 page) pass a result together with its own protocol tag, so the
  props are one of two shapes.
\<close>

datatype SecurityAnalysisProps =
  BB84Props BB84Result
| E91Props E91Result

definition isBB84 :: "SecurityAnalysisProps \<Rightarrow> bool" where
  "isBB84 props = (case props of BB84Props _ \<Rightarrow> True | E91Props _ \<Rightarrow> False)"

text \<open>\<open>const isSecure = result.is_secure\<close>\<close>

definition isSecure :: "SecurityAnalysisProps \<Rightarrow> bool" where
  "isSecure props = (case props of BB84Props r \<Rightarrow> is_secure r | E91Props r \<Rightarrow> is_secure r)"

text \<open>
  \<open>const qber = isBB84 ? result.qber : null\<close> and
  \<open>const sParameter = !isBB84 ? result.chsh_result.s_parameter : null\<close>;
  \<open>null\<close> is \<open>None\<close>.
\<close>

definition qber_of :: "SecurityAnalysisProps \<Rightarrow> real option" where
  "qber_of props = (case props of BB84Props r \<Rightarrow> Some (qber r) | E91Props _ \<Rightarrow> None)"

definition sParameter_of :: "SecurityAnalysisProps \<Rightarrow> real option" where
  "sParameter_of props =
     (case props of BB84Props _ \<Rightarrow> None | E91Props r \<Rightarrow> Some (s_parameter (chsh_result r)))"

record SecurityLevel =
  level :: string
  color :: string
  score :: nat

text \<open>
  \<open>getSecurityLevel\<close> is a closure over \<open>isBB84\<close>, \<open>qber\<close> and \<open>sParameter\<close>;
  the three captured variables are its arguments here. The branches and their
  order are those of the source.
\<close>

definition getSecurityLevel :: "bool \<Rightarrow> real option \<Rightarrow> real option \<Rightarrow> SecurityLevel" where
  "getSecurityLevel isBB84' qber' sParameter' =
     (if isBB84' \<and> qber' \<noteq> None then
        (if the qber' \<le> 5 then \<lparr>level = ''Excellent'', color = ''emerald'', score = 95\<rparr>
         else if the qber' \<le> 8.5 then \<lparr>level = ''Good'', color = ''green'', score = 75\<rparr>
         else if the qber' \<le> 15 then \<lparr>level = ''Poor'', color = ''amber'', score = 40\<rparr>
         else \<lparr>level = ''Compromised'', color = ''red'', score = 10\<rparr>)
      else if sParameter' \<noteq> None then
        (if the sParameter' > 2.5 then \<lparr>level = ''Excellent'', color = ''emerald'', score = 95\<rparr>
         else if the sParameter' > 2.0 then \<lparr>level = ''Good'', color = ''green'', score = 70\<rparr>
         else if the sParameter' > 1.5 then \<lparr>level = ''Poor'', color = ''amber'', score = 35\<rparr>
         else \<lparr>level = ''Compromised'', color = ''red'', score = 10\<rparr>)
      else \<lparr>level = ''Unknown'', color = ''slate'', score = 0\<rparr>)"

text \<open>\<open>const security = getSecurityLevel()\<close> inside the component.\<close>

definition security :: "SecurityAnalysisProps \<Rightarrow> SecurityLevel" where
  "security props = getSecurityLevel (isBB84 props) (qber_of props) (sParameter_of props)"

text \<open>
  The colour class of the QBER figure in the metrics grid:
  \<open>qber <= 8.5 ? 'text-emerald-400' : 'text-red-400'\<close>, and of the S figure:
  \<open>sParameter > 2 ? 'text-emerald-400' : 'text-red-400'\<close>.
\<close>

definition qberMetricClass :: "real \<Rightarrow> string" where
  "qberMetricClass q = (if q \<le> 8.5 then ''text-emerald-400'' else ''text-red-400'')"

definition sParameterMetricClass :: "real \<Rightarrow> string" where
  "sParameterMetricClass s = (if s > 2 then ''text-emerald-400'' else ''text-red-400'')"

section \<open>QBER chart (QBERChart.tsx)\<close>

text \<open>
  The chart takes \<open>qber\<close> and \<open>threshold\<close> (default 8.5; the BB84 page passes
  8.5). The centre value, the interpretation box and its text all use the same
  three-way test; the legend under the gauge labels the three colours
  "Secure (<5%)", "Warning (5-8.5%)" and "Insecure (>8.5%)".
\<close>

definition default_threshold :: real where
  "default_threshold = 8.5"

definition qberValueClass :: "real \<Rightarrow> real \<Rightarrow> string" where
  "qberValueClass q threshold =
     (if q \<le> 5 then ''text-green-400''
      else if q \<le> threshold then ''text-amber-400''
      else ''text-red-400'')"

definition qberBarFill :: "real \<Rightarrow> real \<Rightarrow> string" where
  "qberBarFill q threshold = (if q \<le> threshold then ''#22c55e'' else ''#ef4444'')"

section \<open>CHSH meter (CHSHMeter.tsx)\<close>

text \<open>
  \<open>getColor\<close> closes over \<open>s_parameter\<close> and \<open>classical_bound\<close> of the
  \<open>chshResult\<close> prop. The two status badges repeat the tests (the tick or
  cross glyph in front of the first badge's label is left out).
\<close>

definition getColor :: "CHSHResult \<Rightarrow> string" where
  "getColor chshResult =
     (if s_parameter chshResult > 2.5 then ''#22c55e''
      else if s_parameter chshResult > classical_bound chshResult then ''#f59e0b''
      else ''#ef4444'')"

definition violationBadge :: "CHSHResult \<Rightarrow> string" where
  "violationBadge chshResult =
     (if s_parameter chshResult > classical_bound chshResult
      then ''Quantum Violation'' else ''No Violation'')"

definition securityBadge :: "CHSHResult \<Rightarrow> string" where
  "securityBadge chshResult =
     (if s_parameter chshResult > 2.5 then ''Strong Security''
      else if s_parameter chshResult > classical_bound chshResult then ''Marginal Security''
      else ''Insecure'')"

section \<open>Key visualization (KeyVisualization.tsx)\<close>

text \<open>
  \<open>bobKey[i]\<close> past the end of the array is \<open>undefined\<close>, which is \<open>===\<close> to no
  bit; \<open>index\<close> returns \<open>None\<close> there.
\<close>

definition index :: "'a list \<Rightarrow> nat \<Rightarrow> 'a option" where
  "index xs i = (if i < length xs then Some (xs ! i) else None)"

text \<open>\<open>aliceKey.filter((bit, i) => bit === bobKey[i]).length\<close>\<close>

definition matches :: "int list \<Rightarrow> int list \<Rightarrow> nat" where
  "matches aliceKey bobKey =
     length (filter (\<lambda>(bit, i). index bobKey i = Some bit)
                    (zip aliceKey [0..<length aliceKey]))"

text \<open>
  \<open>(matches / aliceKey.length) * 100\<close>. A count or a length of an array is
  below \<open>2^32\<close> and so is a double as it stands.
\<close>

definition matchRate :: "int list \<Rightarrow> int list \<Rightarrow> number" where
  "matchRate aliceKey bobKey =
     js_mul (js_div (Num (real (matches aliceKey bobKey))) (Num (real (length aliceKey))))
            (Num 100)"

definition keyLengthBits :: "int list \<Rightarrow> nat" where
  "keyLengthBits aliceKey = length aliceKey"

definition keyLengthBytes :: "int list \<Rightarrow> nat" where
  "keyLengthBytes aliceKey = keyLengthBits aliceKey div 8"

section \<open>Simulation store (store/index.ts)\<close>

datatype Basis = Z | X | D

datatype ProtocolType = BB84 | E91

datatype SimulationStatus = Idle | Running | Completed | Error

text \<open>
  \<open>BB84Config\<close> and \<open>E91Config\<close>; the two fields both interfaces declare
  (\<open>eve_attack\<close>, \<open>shots\<close>) are in the parent record.
\<close>

record SimConfig =
  eve_attack :: bool
  shots :: int

record BB84Config = SimConfig +
  n_qubits :: int
  bases :: "Basis list"
  eve_intercept_ratio :: real

record E91Config = SimConfig +
  n_pairs :: int
  alice_angles :: "real list"
  bob_angles :: "real list"
  noise_level :: real

definition defaultBB84Config :: BB84Config where
  "defaultBB84Config =
     \<lparr>eve_attack = False, shots = 1024, n_qubits = 9, bases = [Z, X], eve_intercept_ratio = 1.0\<rparr>"

definition defaultE91Config :: E91Config where
  "defaultE91Config =
     \<lparr>eve_attack = False, shots = 1024, n_pairs = 9, alice_angles = [0, 45, 90],
      bob_angles = [45, 90, 135], noise_level = 0\<rparr>"

text \<open>
  \<open>Partial<BB84Config>\<close> and \<open>Partial<E91Config>\<close>: every field may be absent.
\<close>

record PartialBB84Config =
  set_n_qubits :: "int option"
  set_bases :: "Basis list option"
  set_eve_attack :: "bool option"
  set_eve_intercept_ratio :: "real option"
  set_shots :: "int option"

record PartialE91Config =
  set_n_pairs :: "int option"
  set_alice_angles :: "real list option"
  set_bob_angles :: "real list option"
  set_e91_eve_attack :: "bool option"
  set_e91_shots :: "int option"
  set_noise_level :: "real option"

definition noBB84Change :: PartialBB84Config where
  "noBB84Change =
     \<lparr>set_n_qubits = None, set_bases = None, set_eve_attack = None,
      set_eve_intercept_ratio = None, set_shots = None\<rparr>"

definition noE91Change :: PartialE91Config where
  "noE91Change =
     \<lparr>set_n_pairs = None, set_alice_angles = None, set_bob_angles = None,
      set_e91_eve_attack = None, set_e91_shots = None, set_noise_level = None\<rparr>"

record SimulationStore =
  protocol :: "ProtocolType option"
  status :: SimulationStatus
  bb84Config :: BB84Config
  e91Config :: E91Config
  bb84Result :: "BB84Result option"
  e91Result :: "E91Result option"
  error :: "string option"

definition initialStore :: SimulationStore where
  "initialStore =
     \<lparr>protocol = None, status = Idle, bb84Config = defaultBB84Config,
      e91Config = defaultE91Config, bb84Result = None, e91Result = None, error = None\<rparr>"

definition setProtocol :: "ProtocolType option \<Rightarrow> SimulationStore \<Rightarrow> SimulationStore" where
  "setProtocol p state = state\<lparr>protocol := p, error := None\<rparr>"

text \<open>
  \<open>{ ...state.bb84Config, ...config }\<close>: each field present in the patch replaces
  the stored one. There is no check of the values.
\<close>

definition spreadBB84 :: "BB84Config \<Rightarrow> PartialBB84Config \<Rightarrow> BB84Config" where
  "spreadBB84 c config =
     \<lparr>eve_attack = (case set_eve_attack config of None \<Rightarrow> eve_attack c | Some v \<Rightarrow> v),
      shots = (case set_shots config of None \<Rightarrow> shots c | Some v \<Rightarrow> v),
      n_qubits = (case set_n_qubits config of None \<Rightarrow> n_qubits c | Some v \<Rightarrow> v),
      bases = (case set_bases config of None \<Rightarrow> bases c | Some v \<Rightarrow> v),
      eve_intercept_ratio =
        (case set_eve_intercept_ratio config of None \<Rightarrow> eve_intercept_ratio c | Some v \<Rightarrow> v)\<rparr>"

definition spreadE91 :: "E91Config \<Rightarrow> PartialE91Config \<Rightarrow> E91Config" where
  "spreadE91 c config =
     \<lparr>eve_attack = (case set_e91_eve_attack config of None \<Rightarrow> eve_attack c | Some v \<Rightarrow> v),
      shots = (case set_e91_shots config of None \<Rightarrow> shots c | Some v \<Rightarrow> v),
      n_pairs = (case set_n_pairs config of None \<Rightarrow> n_pairs c | Some v \<Rightarrow> v),
      alice_angles = (case set_alice_angles config of None \<Rightarrow> alice_angles c | Some v \<Rightarrow> v),
      bob_angles = (case set_bob_angles config of None \<Rightarrow> bob_angles c | Some v \<Rightarrow> v),
      noise_level = (case set_noise_level config of None \<Rightarrow> noise_level c | Some v \<Rightarrow> v)\<rparr>"

definition updateBB84Config :: "PartialBB84Config \<Rightarrow> SimulationStore \<Rightarrow> SimulationStore" where
  "updateBB84Config config state = state\<lparr>bb84Config := spreadBB84 (bb84Config state) config\<rparr>"

definition updateE91Config :: "PartialE91Config \<Rightarrow> SimulationStore \<Rightarrow> SimulationStore" where
  "updateE91Config config state = state\<lparr>e91Config := spreadE91 (e91Config state) config\<rparr>"

definition reset :: "SimulationStore \<Rightarrow> SimulationStore" where
  "reset state = initialStore"

definition clearResults :: "SimulationStore \<Rightarrow> SimulationStore" where
  "clearResults state =
     state\<lparr>status := Idle, bb84Result := None, e91Result := None, error := None\<rparr>"

subsection \<open>Service calls\<close>

text \<open>
  \<open>bb84Service.simulate\<close> and \<open>e91Service.simulate\<close> each make one
  \<open>api.post\<close> and return \<open>response.data\<close>, or reject with what the HTTP client
  threw. The backend is outside the sources: its answer to a request is a
  parameter. Every request that leaves the browser is appended to a log, so
  that the number of requests of a run can be counted. What a \<open>catch\<close> block
  receives is either an \<open>Error\<close> instance with its message or some other value.
\<close>

datatype Thrown = ErrorInstance string | OtherValue

datatype Request =
  PostBB84Simulate BB84Config
| PostE91Simulate E91Config
| PostCryptoEncrypt "number list" string int
| PostCryptoDecrypt "number list" string string int

definition bb84Service_simulate ::
  "(BB84Config \<Rightarrow> Thrown + BB84Result) \<Rightarrow> BB84Config \<Rightarrow> Request list
     \<Rightarrow> (Thrown + BB84Result) \<times> Request list" where
  "bb84Service_simulate backend config sent = (backend config, sent @ [PostBB84Simulate config])"

definition e91Service_simulate ::
  "(E91Config \<Rightarrow> Thrown + E91Result) \<Rightarrow> E91Config \<Rightarrow> Request list
     \<Rightarrow> (Thrown + E91Result) \<times> Request list" where
  "e91Service_simulate backend config sent = (backend config, sent @ [PostE91Simulate config])"

text \<open>\<open>err instanceof Error ? err.message : 'Simulation failed'\<close>\<close>

definition simulationMessage :: "Thrown \<Rightarrow> string" where
  "simulationMessage err = (case err of ErrorInstance m \<Rightarrow> m | OtherValue \<Rightarrow> ''Simulation failed'')"

text \<open>
  \<open>runBB84Simulation\<close> and \<open>runE91Simulation\<close>: read the configuration, mark the
  store as running, await the one service call, then store the result or the
  message. The body has no loop and no second call. A run is modelled as one
  step from the click to the settled promise.
\<close>

definition runBB84Simulation ::
  "(BB84Config \<Rightarrow> Thrown + BB84Result) \<Rightarrow> SimulationStore \<times> Request list
     \<Rightarrow> SimulationStore \<times> Request list" where
  "runBB84Simulation backend app =
     (let state = fst app;
          config = bb84Config state;
          state1 = state\<lparr>status := Running, error := None, bb84Result := None\<rparr>;
          answer = bb84Service_simulate backend config (snd app)
      in case fst answer of
           Inr result \<Rightarrow> (state1\<lparr>status := Completed, bb84Result := Some result\<rparr>, snd answer)
         | Inl err \<Rightarrow> (state1\<lparr>status := Error, error := Some (simulationMessage err)\<rparr>, snd answer))"

definition runE91Simulation ::
  "(E91Config \<Rightarrow> Thrown + E91Result) \<Rightarrow> SimulationStore \<times> Request list
     \<Rightarrow> SimulationStore \<times> Request list" where
  "runE91Simulation backend app =
     (let state = fst app;
          config = e91Config state;
          state1 = state\<lparr>status := Running, error := None, e91Result := None\<rparr>;
          answer = e91Service_simulate backend config (snd app)
      in case fst answer of
           Inr result \<Rightarrow> (state1\<lparr>status := Completed, e91Result := Some result\<rparr>, snd answer)
         | Inl err \<Rightarrow> (state1\<lparr>status := Error, error := Some (simulationMessage err)\<rparr>, snd answer))"


section \<open>Simulation pages (BB84Page.tsx, E91Page.tsx, HomePage.tsx)\<close>

text \<open>
  Every control of the two configuration panels has \<open>disabled={isRunning}\<close>.
  The "New Simulation" button is rendered only when \<open>hasResult\<close> holds.
\<close>

definition isRunning :: "SimulationStore \<Rightarrow> bool" where
  "isRunning state = (status state = Running)"

definition hasBB84Result :: "SimulationStore \<Rightarrow> bool" where
  "hasBB84Result state = (status state = Completed \<and> bb84Result state \<noteq> None)"

definition hasE91Result :: "SimulationStore \<Rightarrow> bool" where
  "hasE91Result state = (status state = Completed \<and> e91Result state \<noteq> None)"

text \<open>The qubit buttons are \<open>[9, 12, 16].map(...)\<close>, the pair buttons \<open>[6, 9, 12].map(...)\<close>.\<close>

definition qubitButtons :: "int list" where
  "qubitButtons = [9, 12, 16]"

definition pairButtons :: "int list" where
  "pairButtons = [6, 9, 12]"

definition basisButtons :: "Basis list" where
  "basisButtons = [Z, X, D]"

text \<open>
  The click handler of a basis button:
  \<open>newBases = isSelected ? bases.filter(b => b !== basis) : [...bases, basis]\<close>,
  then \<open>if (newBases.length > 0) updateBB84Config({ bases: newBases })\<close>.
\<close>

definition onClickBasis :: "Basis \<Rightarrow> SimulationStore \<Rightarrow> SimulationStore" where
  "onClickBasis basis state =
     (let isSelected = (basis \<in> set (bases (bb84Config state)));
          newBases = (if isSelected then filter (\<lambda>b. b \<noteq> basis) (bases (bb84Config state))
                      else bases (bb84Config state) @ [basis])
      in if length newBases > 0
         then updateBB84Config (noBB84Change\<lparr>set_bases := Some newBases\<rparr>) state
         else state)"

text \<open>
  What the user can do on the BB84 page. A click on a qubit button carries the
  button's number; the interception slider (shown while Eve is enabled) delivers
  a whole number from 0 to 100; the shots menu has four entries; the run button
  starts a run, whose answer from the backend comes with the event.
\<close>

datatype BB84PageEvent =
  ClickQubits int
| ClickBasis Basis
| ClickEve
| ChangeInterceptRate int
| ChangeShots int
| ClickRun "BB84Config \<Rightarrow> Thrown + BB84Result"
| ClickNewSimulation

fun bb84PageStep ::
  "SimulationStore \<times> Request list \<Rightarrow> BB84PageEvent \<Rightarrow> SimulationStore \<times> Request list" where
  "bb84PageStep (state, sent) (ClickQubits n) =
     (if n \<in> set qubitButtons \<and> \<not> isRunning state
      then (updateBB84Config (noBB84Change\<lparr>set_n_qubits := Some n\<rparr>) state, sent)
      else (state, sent))"
| "bb84PageStep (state, sent) (ClickBasis basis) =
     (if basis \<in> set basisButtons \<and> \<not> isRunning state
      then (onClickBasis basis state, sent)
      else (state, sent))"
| "bb84PageStep (state, sent) ClickEve =
     (if \<not> isRunning state
      then (updateBB84Config
              (noBB84Change\<lparr>set_eve_attack := Some (\<not> eve_attack (bb84Config state))\<rparr>) state, sent)
      else (state, sent))"
| "bb84PageStep (state, sent) (ChangeInterceptRate v) =
     (if eve_attack (bb84Config state) \<and> 0 \<le> v \<and> v \<le> 100 \<and> \<not> isRunning state
      then (updateBB84Config
              (noBB84Change\<lparr>set_eve_intercept_ratio := Some (real_of_int v / 100)\<rparr>) state, sent)
      else (state, sent))"
| "bb84PageStep (state, sent) (ChangeShots v) =
     (if v \<in> set [512, 1024, 2048, 4096] \<and> \<not> isRunning state
      then (updateBB84Config (noBB84Change\<lparr>set_shots := Some v\<rparr>) state, sent)
      else (state, sent))"
| "bb84PageStep (state, sent) (ClickRun backend) =
     (if \<not> isRunning state then runBB84Simulation backend (state, sent) else (state, sent))"
| "bb84PageStep (state, sent) ClickNewSimulation =
     (if hasBB84Result state then (clearResults state, sent) else (state, sent))"

text \<open>
  The E91 page. An angle field delivers \<open>parseFloat(e.target.value) || 0\<close>:
  the event carries the parsed number, \<open>None\<close> when the text is not a number.
  The noise slider delivers a whole number from 0 to 30.
\<close>

datatype E91PageEvent =
  ClickPairs int
| ChangeAliceAngle nat "real option"
| ChangeBobAngle nat "real option"
| ClickEveE91
| ChangeNoise int
| ChangeShotsE91 int
| ClickRunE91 "E91Config \<Rightarrow> Thrown + E91Result"
| ClickNewSimulationE91

definition orZero :: "real option \<Rightarrow> real" where
  "orZero parsed = (case parsed of None \<Rightarrow> 0 | Some v \<Rightarrow> v)"

fun e91PageStep ::
  "SimulationStore \<times> Request list \<Rightarrow> E91PageEvent \<Rightarrow> SimulationStore \<times> Request list" where
  "e91PageStep (state, sent) (ClickPairs n) =
     (if n \<in> set pairButtons \<and> \<not> isRunning state
      then (updateE91Config (noE91Change\<lparr>set_n_pairs := Some n\<rparr>) state, sent)
      else (state, sent))"
| "e91PageStep (state, sent) (ChangeAliceAngle i parsed) =
     (if i < length (alice_angles (e91Config state)) \<and> \<not> isRunning state
      then (updateE91Config
              (noE91Change\<lparr>set_alice_angles :=
                 Some ((alice_angles (e91Config state))[i := orZero parsed])\<rparr>) state, sent)
      else (state, sent))"
| "e91PageStep (state, sent) (ChangeBobAngle i parsed) =
     (if i < length (bob_angles (e91Config state)) \<and> \<not> isRunning state
      then (updateE91Config
              (noE91Change\<lparr>set_bob_angles :=
                 Some ((bob_angles (e91Config state))[i := orZero parsed])\<rparr>) state, sent)
      else (state, sent))"
| "e91PageStep (state, sent) ClickEveE91 =
     (if \<not> isRunning state
      then (updateE91Config
              (noE91Change\<lparr>set_e91_eve_attack := Some (\<not> eve_attack (e91Config state))\<rparr>) state, sent)
      else (state, sent))"
| "e91PageStep (state, sent) (ChangeNoise v) =
     (if 0 \<le> v \<and> v \<le> 30 \<and> \<not> isRunning state
      then (updateE91Config
              (noE91Change\<lparr>set_noise_level := Some (real_of_int v / 100)\<rparr>) state, sent)
      else (state, sent))"
| "e91PageStep (state, sent) (ChangeShotsE91 v) =
     (if v \<in> set [512, 1024, 2048] \<and> \<not> isRunning state
      then (updateE91Config (noE91Change\<lparr>set_e91_shots := Some v\<rparr>) state, sent)
      else (state, sent))"
| "e91PageStep (state, sent) (ClickRunE91 backend) =
     (if \<not> isRunning state then runE91Simulation backend (state, sent) else (state, sent))"
| "e91PageStep (state, sent) ClickNewSimulationE91 =
     (if hasE91Result state then (clearResults state, sent) else (state, sent))"

text \<open>
  The home page calls \<open>setProtocol\<close> when a protocol card is chosen. A session
  is a sequence of events on the three pages, starting from the initial store
  with nothing sent.
\<close>

datatype UIEvent =
  OnBB84Page BB84PageEvent
| OnE91Page E91PageEvent
| SelectProtocol ProtocolType

fun uiStep :: "SimulationStore \<times> Request list \<Rightarrow> UIEvent \<Rightarrow> SimulationStore \<times> Request list" where
  "uiStep app (OnBB84Page e) = bb84PageStep app e"
| "uiStep app (OnE91Page e) = e91PageStep app e"
| "uiStep app (SelectProtocol p) = (setProtocol (Some p) (fst app), snd app)"

definition session :: "UIEvent list \<Rightarrow> SimulationStore \<times> Request list" where
  "session events = foldl uiStep (initialStore, []) events"

section \<open>Encryption page (EncryptionPage.tsx, cryptoService.ts)\<close>

text \<open>
  \<open>parseKey\<close>: split at separators, keep the pieces that are exactly \<open>"0"\<close> or
  \<open>"1"\<close>, and convert each with \<open>parseInt(s, 10)\<close>.
\<close>

definition parseKey :: "jsstring \<Rightarrow> number list" where
  "parseKey keyStr =
     map parseInt10 (filter (\<lambda>s. s = [0x30] \<or> s = [0x31]) (splitSeparators keyStr))"

record EncryptResponse =
  success :: bool
  ciphertext :: string
  iv :: string
  key_hash :: string
  algorithm :: string
  mode :: string
  original_length :: int
  key_bits_used :: int

record DecryptResponse =
  success :: bool
  plaintext :: string
  verified :: bool
  key_hash :: string

text \<open>
  \<open>cryptoService.encrypt\<close> and \<open>cryptoService.decrypt\<close> post the request with
  \<open>key_size: data.key_size || 256\<close>.
\<close>

definition cryptoService_encrypt ::
  "(Request \<Rightarrow> Thrown + EncryptResponse) \<Rightarrow> number list \<Rightarrow> string \<Rightarrow> int \<Rightarrow> Request list
     \<Rightarrow> (Thrown + EncryptResponse) \<times> Request list" where
  "cryptoService_encrypt backend quantum_key plaintext' key_size sent =
     (let request = PostCryptoEncrypt quantum_key plaintext' (if key_size = 0 then 256 else key_size)
      in (backend request, sent @ [request]))"

definition cryptoService_decrypt ::
  "(Request \<Rightarrow> Thrown + DecryptResponse) \<Rightarrow> number list \<Rightarrow> string \<Rightarrow> string \<Rightarrow> int
     \<Rightarrow> Request list \<Rightarrow> (Thrown + DecryptResponse) \<times> Request list" where
  "cryptoService_decrypt backend quantum_key ciphertext' iv' key_size sent =
     (let request =
            PostCryptoDecrypt quantum_key ciphertext' iv' (if key_size = 0 then 256 else key_size)
      in (backend request, sent @ [request]))"

text \<open>The component state: one field per \<open>useState\<close>.\<close>

datatype Mode = Encrypt | Decrypt

record CryptoInfo =
  algorithm :: "string option"
  keyHash :: "string option"
  keyBitsUsed :: "int option"

record EncryptionPage =
  mode :: Mode
  quantumKey :: jsstring
  inputText :: string
  outputText :: string
  iv :: string
  keySize :: int
  isProcessing :: bool
  error :: "string option"
  copied :: "string option"
  result :: "CryptoInfo option"

text \<open>The initial values given to \<open>useState\<close>.\<close>

definition initialEncryptionPage :: EncryptionPage where
  "initialEncryptionPage =
     \<lparr>mode = Encrypt, quantumKey = [], inputText = [], outputText = [], iv = [],
      keySize = 256, isProcessing = False, error = None, copied = None, result = None\<rparr>"

text \<open>\<open>`Key too short: ${keyBits.length} bits. Need at least 128 bits.`\<close>\<close>

definition keyTooShort :: "nat \<Rightarrow> string" where
  "keyTooShort n = ''Key too short: '' @ decimal n @ '' bits. Need at least 128 bits.''"

text \<open>
  \<open>handleEncrypt\<close> and \<open>handleDecrypt\<close>. The \<open>throw\<close> inside \<open>try\<close> goes to the
  \<open>catch\<close> block, which stores the message; \<open>finally\<close> clears \<open>isProcessing\<close>
  on every path.
\<close>

definition handleEncrypt ::
  "(Request \<Rightarrow> Thrown + EncryptResponse) \<Rightarrow> EncryptionPage \<times> Request list
     \<Rightarrow> EncryptionPage \<times> Request list" where
  "handleEncrypt backend app =
     (let page = (fst app)\<lparr>EncryptionPage.error := None, isProcessing := True\<rparr>;
          keyBits = parseKey (quantumKey page)
      in if length keyBits < 128 then
           (page\<lparr>EncryptionPage.error := Some (keyTooShort (length keyBits)),
                 isProcessing := False\<rparr>, snd app)
         else
           (let answer = cryptoService_encrypt backend keyBits (inputText page) (keySize page) (snd app)
            in case fst answer of
                 Inr response \<Rightarrow>
                   (page\<lparr>outputText := ciphertext response,
                         EncryptionPage.iv := EncryptResponse.iv response,
                         result := Some \<lparr>algorithm = Some (EncryptResponse.algorithm response),
                                         keyHash = Some (EncryptResponse.key_hash response),
                                         keyBitsUsed = Some (key_bits_used response)\<rparr>,
                         isProcessing := False\<rparr>, snd answer)
               | Inl err \<Rightarrow>
                   (page\<lparr>EncryptionPage.error :=
                           Some (case err of ErrorInstance m \<Rightarrow> m
                                 | OtherValue \<Rightarrow> ''Encryption failed''),
                         isProcessing := False\<rparr>, snd answer)))"

definition handleDecrypt ::
  "(Request \<Rightarrow> Thrown + DecryptResponse) \<Rightarrow> EncryptionPage \<times> Request list
     \<Rightarrow> EncryptionPage \<times> Request list" where
  "handleDecrypt backend app =
     (let page = (fst app)\<lparr>EncryptionPage.error := None, isProcessing := True\<rparr>;
          keyBits = parseKey (quantumKey page)
      in if length keyBits < 128 then
           (page\<lparr>EncryptionPage.error := Some (keyTooShort (length keyBits)),
                 isProcessing := False\<rparr>, snd app)
         else
           (let answer = cryptoService_decrypt backend keyBits (inputText page)
                           (EncryptionPage.iv page) (keySize page) (snd app)
            in case fst answer of
                 Inr response \<Rightarrow>
                   (page\<lparr>outputText := plaintext response,
                         result := Some \<lparr>algorithm = None,
                                         keyHash = Some (DecryptResponse.key_hash response),
                                         keyBitsUsed = None\<rparr>,
                         isProcessing := False\<rparr>, snd answer)
               | Inl err \<Rightarrow>
                   (page\<lparr>EncryptionPage.error :=
                           Some (case err of ErrorInstance m \<Rightarrow> m
                                 | OtherValue \<Rightarrow> ''Decryption failed''),
                         isProcessing := False\<rparr>, snd answer)))"

text \<open>\<open>const keyReady = keyBits.length >= 128\<close>, used to enable the submit button.\<close>

definition keyReady :: "EncryptionPage \<Rightarrow> bool" where
  "keyReady page = (length (parseKey (quantumKey page)) \<ge> 128)"

section \<open>Parts of the backend, from the specification\<close>

text \<open>
  Modelled from the spec: the backend that sets the \<open>is_secure\<close> field of a
  BB84 result is not among the sources (the frontend only reads the field).
  Specification 4.2, step 7: "is_secure = QBER < 8.5%".
\<close>

definition bb84_is_secure :: "real \<Rightarrow> bool" where
  "bb84_is_secure q = (q < 8.5)"

text \<open>
  Modelled from the spec: the backend that sets the \<open>is_secure\<close> field of an
  E91 result is not among the sources. Specification 4.3, step 6:
  "is_secure = S > 2.0 (classical bound)".
\<close>

definition e91_is_secure :: "real \<Rightarrow> bool" where
  "e91_is_secure s = (s > 2.0)"

text \<open>
  Modelled from the spec: the failures of a request, specification section 7.
  The engine that raises them is not among the sources.
\<close>

datatype EngineError =
  ConfigError
| CircuitExecutionError
| InsufficientKeyMaterial
| KeyTooShort
| AuthenticationOrPaddingError

text \<open>
  Modelled from the spec: the validation of a BB84 configuration by the engine,
  which is not among the sources (the frontend posts the configuration as it is
  and reports the HTTP error). Specification 4.1: "Fails with ConfigError when
  qubit/pair count is outside the supported set, when basis/angle lists are
  empty, or when shot count is non-positive"; the supported qubit counts are 9,
  12 and 16 (section 3).
\<close>

definition validateBB84Config :: "BB84Config \<Rightarrow> EngineError + BB84Config" where
  "validateBB84Config config =
     (if n_qubits config \<notin> {9, 12, 16} \<or> bases config = [] \<or> shots config \<le> 0
      then Inl ConfigError else Inr config)"

text \<open>
  Modelled from the spec: the validation of an E91 configuration, specification
  4.1 as above with the supported pair counts 6, 9 and 12, and 4.3: "fewer than
  2 distinct angles per party makes CHSH undefined - fails with ConfigError at
  validation time".
\<close>

definition validateE91Config :: "E91Config \<Rightarrow> EngineError + E91Config" where
  "validateE91Config config =
     (if n_pairs config \<notin> {6, 9, 12} \<or> alice_angles config = [] \<or> bob_angles config = []
         \<or> shots config \<le> 0
         \<or> length (remdups (alice_angles config)) < 2 \<or> length (remdups (bob_angles config)) < 2
      then Inl ConfigError else Inr config)"

text \<open>
  Modelled from the spec: the injectable random source of specification
  section 9, as the sequence of values it will deliver and the number of values
  drawn so far.
\<close>

record RandomSource =
  upcoming :: "nat \<Rightarrow> nat"
  drawn :: nat

definition draw :: "RandomSource \<Rightarrow> nat \<times> RandomSource" where
  "draw source = (upcoming source (drawn source), source\<lparr>drawn := Suc (drawn source)\<rparr>)"

text \<open>
  Modelled from the spec: a request is validated before any simulation work
  (specification sections 7 and 8); the stages that follow a valid
  configuration (generate, encode, intercept, measure, sift, assess) are a
  parameter and receive the random source.
\<close>

definition simulateBB84 ::
  "(BB84Config \<Rightarrow> RandomSource \<Rightarrow> (EngineError + 'r) \<times> RandomSource) \<Rightarrow> BB84Config
     \<Rightarrow> RandomSource \<Rightarrow> (EngineError + 'r) \<times> RandomSource" where
  "simulateBB84 stages config source =
     (case validateBB84Config config of
        Inl e \<Rightarrow> (Inl e, source)
      | Inr valid \<Rightarrow> stages valid source)"

definition simulateE91 ::
  "(E91Config \<Rightarrow> RandomSource \<Rightarrow> (EngineError + 'r) \<times> RandomSource) \<Rightarrow> E91Config
     \<Rightarrow> RandomSource \<Rightarrow> (EngineError + 'r) \<times> RandomSource" where
  "simulateE91 stages config source =
     (case validateE91Config config of
        Inl e \<Rightarrow> (Inl e, source)
      | Inr valid \<Rightarrow> stages valid source)"

section \<open>Sample data and reference definitions\<close>

text \<open>
  The two sample results of the test mocks (\<open>mockBB84Result\<close>,
  \<open>mockE91Result\<close>), without their circuit and correlation tables.
\<close>

definition mockBB84Result :: BB84Result where
  "mockBB84Result =
     \<lparr>circuit_depth = 5, sifted_alice_key = [0, 0, 1], sifted_bob_key = [0, 0, 1],
      is_secure = True, eve_detected = False, execution_time_ms = 42,
      alice_bits = [0, 1, 0, 1], alice_bases = [''Z'', ''X'', ''Z'', ''X''],
      bob_bases = [''Z'', ''Z'', ''Z'', ''X''], bob_measurements = [0, 1, 0, 1],
      matching_indices = [0, 2, 3], eve_intercepted_indices = None, eve_bases = None,
      eve_measurements = None, qber = 0, information_leakage = 0, key_efficiency = 0.75,
      shots_used = 1024\<rparr>"

definition mockCHSHResult :: CHSHResult where
  "mockCHSHResult =
     \<lparr>s_parameter = 2.72, classical_bound = 2.0, quantum_max = 2.828,
      violates_classical = True, expectation_values = []\<rparr>"

definition mockE91Result :: E91Result where
  "mockE91Result =
     \<lparr>circuit_depth = 3, sifted_alice_key = [0, 1, 0], sifted_bob_key = [0, 1, 0],
      is_secure = True, eve_detected = False, execution_time_ms = 150,
      alice_angles_used = [0, 45, 90], bob_angles_used = [45, 90, 135],
      chsh_result = mockCHSHResult, key_match_rate = 100, shots_per_combination = 1024\<rparr>"

text \<open>
  Backends for the examples: one that cannot be reached (the HTTP client
  rejects with an \<open>Error\<close>), one that answers with the sample result.
\<close>

definition failingBB84Backend :: "BB84Config \<Rightarrow> Thrown + BB84Result" where
  "failingBB84Backend config = Inl (ErrorInstance ''Network Error'')"

definition failingE91Backend :: "E91Config \<Rightarrow> Thrown + E91Result" where
  "failingE91Backend config = Inl (ErrorInstance ''Network Error'')"

definition mockBB84Backend :: "BB84Config \<Rightarrow> Thrown + BB84Result" where
  "mockBB84Backend config = Inr mockBB84Result"

definition mockE91Backend :: "E91Config \<Rightarrow> Thrown + E91Result" where
  "mockE91Backend config = Inr mockE91Result"

definition unreachableEncrypt :: "Request \<Rightarrow> Thrown + EncryptResponse" where
  "unreachableEncrypt request = Inl (ErrorInstance ''Network Error'')"

definition unreachableDecrypt :: "Request \<Rightarrow> Thrown + DecryptResponse" where
  "unreachableDecrypt request = Inl (ErrorInstance ''Network Error'')"

text \<open>A key text of \<open>n\<close> ones, each followed by a space: \<open>"1 1 1 ... "\<close>.\<close>

definition onesKey :: "nat \<Rightarrow> jsstring" where
  "onesKey n = concat (replicate n [0x31, 0x20])"

text \<open>
  For the examples of the engine: a random source that delivers 0, 1, 2, ...
  and has delivered nothing yet, and stages that draw one value and return it.
\<close>

definition countingSource :: RandomSource where
  "countingSource = \<lparr>upcoming = (\<lambda>i. i), drawn = 0\<rparr>"

definition drawOneStage :: "'c \<Rightarrow> RandomSource \<Rightarrow> (EngineError + nat) \<times> RandomSource" where
  "drawOneStage config source = (Inr (fst (draw source)), snd (draw source))"

text \<open>
  The condition on the two configurations that the pages maintain: a qubit
  count and a pair count among the offered ones, and at least one basis.
\<close>

definition configInvariant :: "SimulationStore \<Rightarrow> bool" where
  "configInvariant state =
     (n_qubits (bb84Config state) \<in> {9, 12, 16} \<and>
      n_pairs (e91Config state) \<in> {6, 9, 12} \<and>
      bases (bb84Config state) \<noteq> [])"

text \<open>
  The positions at which two keys carry the same bit, as the specification
  words the match rate ("positions where Alice's and Bob's bits agree").
\<close>

definition agreeingPositions :: "int list \<Rightarrow> int list \<Rightarrow> nat list" where
  "agreeingPositions alice bob = filter (\<lambda>i. alice ! i = bob ! i) [0..<length alice]"

section \<open>Rounding to a double\<close>

lemma floorlog2_real_bounds:
  assumes "0 < n"
  shows "(2::real) ^ (floorlog 2 n - 1) \<le> real n" and "real n + 1 \<le> 2 ^ floorlog 2 n"
    and "0 < floorlog 2 n"
proof -
  have b: "2 ^ (floorlog 2 n - 1) \<le> n" "n < 2 ^ floorlog 2 n"
    using floorlog_bounds [of n 2] assms by simp_all
  from b(1) have "real (2 ^ (floorlog 2 n - 1)) \<le> real n"
    by (rule of_nat_mono)
  then show "(2::real) ^ (floorlog 2 n - 1) \<le> real n" by simp
  from b(2) have "Suc n \<le> 2 ^ floorlog 2 n" by simp
  then have "real (Suc n) \<le> real (2 ^ floorlog 2 n)"
    by (rule of_nat_mono)
  then show "real n + 1 \<le> 2 ^ floorlog 2 n" by simp
  show "0 < floorlog 2 n"
    using assms by (simp add: floorlog_def)
qed

lemma log2floor_ge_one:
  assumes "1 \<le> x"
  shows "log2floor x = int (floorlog 2 (nat \<lfloor>x\<rfloor>) - 1)" and "0 < nat \<lfloor>x\<rfloor>"
    and "real (nat \<lfloor>x\<rfloor>) \<le> x" and "x < real (nat \<lfloor>x\<rfloor>) + 1"
proof -
  have f: "1 \<le> \<lfloor>x\<rfloor>" using assms by linarith
  then show pos: "0 < nat \<lfloor>x\<rfloor>" by simp
  have r: "real (nat \<lfloor>x\<rfloor>) = of_int \<lfloor>x\<rfloor>" using f by simp
  show "real (nat \<lfloor>x\<rfloor>) \<le> x" unfolding r by linarith
  show "x < real (nat \<lfloor>x\<rfloor>) + 1" unfolding r by linarith
  have "0 < floorlog 2 (nat \<lfloor>x\<rfloor>)" by (rule floorlog2_real_bounds(3) [OF pos])
  then have "int (floorlog 2 (nat \<lfloor>x\<rfloor>)) - 1 = int (floorlog 2 (nat \<lfloor>x\<rfloor>) - 1)"
    by linarith
  then show "log2floor x = int (floorlog 2 (nat \<lfloor>x\<rfloor>) - 1)"
    unfolding log2floor_def using assms by presburger
qed

lemma log2floor_less_one:
  assumes "0 < x" "x < 1"
  shows "log2floor x = - int (floorlog 2 (nat (\<lceil>1 / x\<rceil> - 1)))"
    and "0 < nat (\<lceil>1 / x\<rceil> - 1)"
    and "real (nat (\<lceil>1 / x\<rceil> - 1)) < 1 / x" and "1 / x \<le> real (nat (\<lceil>1 / x\<rceil> - 1)) + 1"
proof -
  have "1 < 1 / x" using assms by simp
  then have c: "2 \<le> \<lceil>1 / x\<rceil>" by linarith
  then show "0 < nat (\<lceil>1 / x\<rceil> - 1)" by linarith
  have "0 \<le> \<lceil>1 / x\<rceil> - 1" using c by linarith
  then have "real (nat (\<lceil>1 / x\<rceil> - 1)) = of_int (\<lceil>1 / x\<rceil> - 1)"
    by (rule of_nat_nat)
  then have r: "real (nat (\<lceil>1 / x\<rceil> - 1)) = of_int \<lceil>1 / x\<rceil> - 1"
    by (simp only: of_int_diff of_int_1)
  show "real (nat (\<lceil>1 / x\<rceil> - 1)) < 1 / x" unfolding r by linarith
  show "1 / x \<le> real (nat (\<lceil>1 / x\<rceil> - 1)) + 1" unfolding r by linarith
  show "log2floor x = - int (floorlog 2 (nat (\<lceil>1 / x\<rceil> - 1)))"
    unfolding log2floor_def using assms by simp
qed

lemma log2floor_bounds:
  assumes "0 < x"
  shows "2 powi (log2floor x) \<le> x" and "x < 2 powi (log2floor x + 1)"
proof -
  show "2 powi (log2floor x) \<le> x"
  proof (cases "1 \<le> x")
    case True
    note f = log2floor_ge_one [OF True]
    have "2 powi (log2floor x) = (2::real) ^ (floorlog 2 (nat \<lfloor>x\<rfloor>) - 1)"
      unfolding f(1) by (rule power_int_of_nat)
    also have "\<dots> \<le> real (nat \<lfloor>x\<rfloor>)"
      by (rule floorlog2_real_bounds(1) [OF f(2)])
    also have "\<dots> \<le> x" by (rule f(3))
    finally show ?thesis .
  next
    case False
    then have lt: "x < 1" by simp
    note f = log2floor_less_one [OF assms lt]
    have "1 / x \<le> 2 ^ floorlog 2 (nat (\<lceil>1 / x\<rceil> - 1))"
      using f(4) floorlog2_real_bounds(2) [OF f(2)] by linarith
    then have "1 / 2 ^ floorlog 2 (nat (\<lceil>1 / x\<rceil> - 1)) \<le> x"
      using assms by (simp add: field_simps)
    moreover have "2 powi (log2floor x) = (1::real) / 2 ^ floorlog 2 (nat (\<lceil>1 / x\<rceil> - 1))"
      unfolding f(1) by (simp only: power_int_minus_divide power_int_of_nat)
    ultimately show ?thesis by simp
  qed
  show "x < 2 powi (log2floor x + 1)"
  proof (cases "1 \<le> x")
    case True
    note f = log2floor_ge_one [OF True]
    have k: "0 < floorlog 2 (nat \<lfloor>x\<rfloor>)"
      by (rule floorlog2_real_bounds(3) [OF f(2)])
    then have "log2floor x + 1 = int (floorlog 2 (nat \<lfloor>x\<rfloor>))"
      unfolding f(1) by linarith
    then have "2 powi (log2floor x + 1) = (2::real) ^ floorlog 2 (nat \<lfloor>x\<rfloor>)"
      by (simp only: power_int_of_nat)
    moreover have "x < 2 ^ floorlog 2 (nat \<lfloor>x\<rfloor>)"
      using f(4) floorlog2_real_bounds(2) [OF f(2)] by linarith
    ultimately show ?thesis by simp
  next
    case False
    then have lt: "x < 1" by simp
    note f = log2floor_less_one [OF assms lt]
    have k: "0 < floorlog 2 (nat (\<lceil>1 / x\<rceil> - 1))"
      by (rule floorlog2_real_bounds(3) [OF f(2)])
    then have "log2floor x + 1 = - int (floorlog 2 (nat (\<lceil>1 / x\<rceil> - 1)) - 1)"
      unfolding f(1) by linarith
    then have e: "2 powi (log2floor x + 1)
        = (1::real) / 2 ^ (floorlog 2 (nat (\<lceil>1 / x\<rceil> - 1)) - 1)"
      by (simp only: power_int_minus_divide power_int_of_nat)
    have "2 ^ (floorlog 2 (nat (\<lceil>1 / x\<rceil> - 1)) - 1) < 1 / x"
      using f(3) floorlog2_real_bounds(1) [OF f(2)] by linarith
    then have "x < 1 / 2 ^ (floorlog 2 (nat (\<lceil>1 / x\<rceil> - 1)) - 1)"
      using assms by (simp add: field_simps)
    then show ?thesis unfolding e .
  qed
qed

lemma roundTiesToEven_error: "\<bar>of_int (roundTiesToEven t) - t\<bar> \<le> 1 / 2"
  unfolding roundTiesToEven_def Let_def by (auto simp: abs_if; linarith)

lemma roundToDouble_error:
  assumes "2 powi (- 1022) \<le> x"
  shows "\<bar>roundToDouble x - x\<bar> \<le> x / 2 ^ 53"
proof -
  have pos: "0 < x"
    using assms zero_less_power_int [of "2::real" "- 1022"] by linarith
  have "2 powi (- 1022) < (2::real) powi (log2floor x + 1)"
    using assms log2floor_bounds(2) [OF pos] by linarith
  then have "- 1022 < log2floor x + 1"
    by (metis linorder_not_less power_int_increasing one_le_numeral)
  then have e: "max (log2floor \<bar>x\<bar>) (- 1022) = log2floor x"
    using pos by simp
  define u where "u = (2::real) powi (log2floor x - 52)"
  have u: "ulp x = u" "0 < u"
    by (simp_all add: ulp_def e u_def)
  have "(2::real) powi (log2floor x - 52 + 53) = 2 powi (log2floor x - 52) * 2 powi 53"
    by (rule power_int_add) simp
  moreover have "log2floor x - 52 + 53 = log2floor x + 1" by simp
  ultimately have "(2::real) powi (log2floor x + 1) = 2 powi (log2floor x - 52) * 2 powi 53"
    by simp
  then have u53: "u * 2 ^ 53 = 2 powi (log2floor x + 1)"
    by (simp add: u_def)
  have "2 powi (log2floor x + 1) = 2 powi (log2floor x) * (2::real)"
    by (rule power_int_add_1) simp
  then have "u * 2 ^ 52 = 2 powi (log2floor x)"
    using u53 by simp
  then have half: "u / 2 \<le> x / 2 ^ 53"
    using log2floor_bounds(1) [OF pos] by (simp add: field_simps)
  have "roundToDouble x - x = (of_int (roundTiesToEven (x / u)) - x / u) * u"
    using pos u by (simp add: roundToDouble_def field_simps)
  then have "\<bar>roundToDouble x - x\<bar> = \<bar>of_int (roundTiesToEven (x / u)) - x / u\<bar> * u"
    using u(2) by (simp add: abs_mult)
  also have "\<dots> \<le> 1 / 2 * u"
    using roundTiesToEven_error [of "x / u"] u(2) by (intro mult_right_mono) simp_all
  finally show ?thesis using half by simp
qed


lemma toNumber_finite:
  assumes "\<bar>roundToDouble x\<bar> < 2 ^ 1024"
  shows "toNumber x = Num (roundToDouble x)"
  using assms by (simp add: toNumber_def Let_def abs_if split: if_splits)

lemma toNumber_0: "toNumber 0 = Num 0"
  by (simp add: toNumber_def roundToDouble_def)

lemma toNumber_1: "toNumber 1 = Num 1"
  by (simp add: toNumber_def roundToDouble_def ulp_def log2floor_def roundTiesToEven_def
      compute_floorlog power_int_minus)

lemma toNumber_100: "toNumber 100 = Num 100"
  by (simp add: toNumber_def roundToDouble_def ulp_def log2floor_def roundTiesToEven_def
      compute_floorlog power_int_minus)

section \<open>Security classification\<close>

lemma bb84_levels:
  "getSecurityLevel True (Some q) s =
     (if q \<le> 5 then \<lparr>level = ''Excellent'', color = ''emerald'', score = 95\<rparr>
      else if q \<le> 8.5 then \<lparr>level = ''Good'', color = ''green'', score = 75\<rparr>
      else if q \<le> 15 then \<lparr>level = ''Poor'', color = ''amber'', score = 40\<rparr>
      else \<lparr>level = ''Compromised'', color = ''red'', score = 10\<rparr>)"
  by (simp add: getSecurityLevel_def)

lemma e91_levels:
  "getSecurityLevel False q (Some s) =
     (if s > 2.5 then \<lparr>level = ''Excellent'', color = ''emerald'', score = 95\<rparr>
      else if s > 2.0 then \<lparr>level = ''Good'', color = ''green'', score = 70\<rparr>
      else if s > 1.5 then \<lparr>level = ''Poor'', color = ''amber'', score = 35\<rparr>
      else \<lparr>level = ''Compromised'', color = ''red'', score = 10\<rparr>)"
  by (simp add: getSecurityLevel_def)

text \<open>
  Claim C1, as stated, asks that a QBER above 8.5 be classified compromised.
  At QBER = 10 the security level computed by the analysis panel is "Poor"
  (amber, score 40); "Compromised" is a separate level of the same function.
\<close>

theorem C1_qber_10_is_poor:
  "getSecurityLevel True (Some 10) None = \<lparr>level = ''Poor'', color = ''amber'', score = 40\<rparr>"
  by (simp add: getSecurityLevel_def)

text \<open>
  Claim C1, amended. For every BB84 result, \<open>is_secure\<close> holds exactly when
  QBER \<open>< 8.5\<close> (the flag is set by the backend, as the specification defines
  it; the analysis panel shows the flag of the result, and a secure result is
  never shown in red). The QBER chart classifies the QBER as secure (green)
  when QBER \<open>< 5\<close>, warning (amber) when \<open>5 <\<close> QBER \<open>\<le> 8.5\<close>, and insecure
  (red) exactly when QBER \<open>> 8.5\<close>. The security level of the analysis panel
  is Excellent when QBER \<open>< 5\<close>, Good when \<open>5 <\<close> QBER \<open>\<le> 8.5\<close> (one of
  the two exactly when QBER \<open>\<le> 8.5\<close>), Poor exactly when \<open>8.5 <\<close> QBER
  \<open>\<le> 15\<close>, and Compromised exactly when QBER \<open>> 15\<close>.
\<close>

theorem C1_bb84_classification:
  "bb84_is_secure q = (q < 8.5) \<and>
   (is_secure r = bb84_is_secure (qber r) \<longrightarrow> isSecure (BB84Props r) = (qber r < 8.5)) \<and>
   (bb84_is_secure q \<longrightarrow>
      qberValueClass q 8.5 \<noteq> ''text-red-400'' \<and> qberMetricClass q = ''text-emerald-400'' \<and>
      (level (getSecurityLevel True (Some q) s) = ''Excellent'' \<or>
       level (getSecurityLevel True (Some q) s) = ''Good'')) \<and>
   (q < 5 \<longrightarrow>
      qberValueClass q 8.5 = ''text-green-400'' \<and>
      getSecurityLevel True (Some q) s = \<lparr>level = ''Excellent'', color = ''emerald'', score = 95\<rparr>) \<and>
   (5 < q \<and> q \<le> 8.5 \<longrightarrow>
      qberValueClass q 8.5 = ''text-amber-400'' \<and>
      getSecurityLevel True (Some q) s = \<lparr>level = ''Good'', color = ''green'', score = 75\<rparr>) \<and>
   (qberValueClass q 8.5 = ''text-green-400'' \<or> qberValueClass q 8.5 = ''text-amber-400'')
      = (q \<le> 8.5) \<and>
   (qberValueClass q 8.5 = ''text-red-400'') = (8.5 < q) \<and>
   (level (getSecurityLevel True (Some q) s) = ''Excellent'' \<or>
    level (getSecurityLevel True (Some q) s) = ''Good'') = (q \<le> 8.5) \<and>
   (level (getSecurityLevel True (Some q) s) = ''Excellent'' \<longrightarrow> q \<le> 5) \<and>
   (level (getSecurityLevel True (Some q) s) = ''Good'' \<longrightarrow> 5 \<le> q) \<and>
   (getSecurityLevel True (Some q) s = \<lparr>level = ''Poor'', color = ''amber'', score = 40\<rparr>)
      = (8.5 < q \<and> q \<le> 15) \<and>
   (level (getSecurityLevel True (Some q) s) = ''Poor'') = (8.5 < q \<and> q \<le> 15) \<and>
   (getSecurityLevel True (Some q) s = \<lparr>level = ''Compromised'', color = ''red'', score = 10\<rparr>)
      = (15 < q) \<and>
   (level (getSecurityLevel True (Some q) s) = ''Compromised'') = (15 < q) \<and>
   security (BB84Props r) = getSecurityLevel True (Some (qber r)) None"
  by (simp add: bb84_levels qberValueClass_def qberMetricClass_def bb84_is_secure_def
      security_def isSecure_def isBB84_def qber_of_def sParameter_of_def)

text \<open>
  The amended claim C1 at the sample result (QBER 0, secure) and at QBER 3,
  7, 12 and 25.
\<close>

theorem C1_bb84_classification_witness:
  "is_secure mockBB84Result = bb84_is_secure (qber mockBB84Result) \<and>
   isSecure (BB84Props mockBB84Result) \<and> qber mockBB84Result < 8.5 \<and>
   bb84_is_secure 3 \<and> qberValueClass 3 8.5 = ''text-green-400'' \<and>
   level (getSecurityLevel True (Some 3) None) = ''Excellent'' \<and>
   bb84_is_secure 7 \<and> qberValueClass 7 8.5 = ''text-amber-400'' \<and>
   level (getSecurityLevel True (Some 7) None) = ''Good'' \<and>
   \<not> bb84_is_secure 12 \<and> qberValueClass 12 8.5 = ''text-red-400'' \<and>
   level (getSecurityLevel True (Some 12) None) = ''Poor'' \<and>
   \<not> bb84_is_secure 25 \<and> level (getSecurityLevel True (Some 25) None) = ''Compromised''"
  using C1_bb84_classification [of 0 mockBB84Result None]
    C1_bb84_classification [of 3 mockBB84Result None]
    C1_bb84_classification [of 7 mockBB84Result None]
    C1_bb84_classification [of 12 mockBB84Result None]
    C1_bb84_classification [of 25 mockBB84Result None]
  by (simp add: mockBB84Result_def)

text \<open>
  Claim C2, as stated, asks that an S-parameter of at most 2.0 be classified
  compromised. At \<open>S = 1.8\<close> the security level computed by the analysis panel
  is "Poor" (amber, score 35); "Compromised" is reserved for \<open>S \<le> 1.5\<close>.
\<close>

theorem C2_s_1_8_is_poor:
  "getSecurityLevel False None (Some 1.8) = \<lparr>level = ''Poor'', color = ''amber'', score = 35\<rparr>"
  by (simp add: getSecurityLevel_def)

text \<open>
  Claim C2, amended. For every E91 result, \<open>is_secure\<close> holds exactly when the
  S-parameter exceeds 2.0 (the flag is set by the backend, as the specification
  defines it; the analysis panel shows the flag of the result, and its own
  colouring of the S figure uses the same test). The security level of the
  analysis panel is Excellent exactly when \<open>S > 2.5\<close>, Good exactly when
  \<open>2 < S \<le> 2.5\<close> (one of the two exactly when the result is secure), Poor
  exactly when \<open>1.5 < S \<le> 2\<close>, and Compromised exactly when \<open>S \<le> 1.5\<close>.
\<close>

theorem C2_e91_classification:
  "e91_is_secure s = (s > 2) \<and>
   (is_secure r = e91_is_secure (s_parameter (chsh_result r)) \<longrightarrow>
      isSecure (E91Props r) = (s_parameter (chsh_result r) > 2)) \<and>
   e91_is_secure s = (sParameterMetricClass s = ''text-emerald-400'') \<and>
   e91_is_secure s = (level (getSecurityLevel False q (Some s)) = ''Excellent'' \<or>
                       level (getSecurityLevel False q (Some s)) = ''Good'') \<and>
   (getSecurityLevel False q (Some s) = \<lparr>level = ''Excellent'', color = ''emerald'', score = 95\<rparr>)
      = (s > 2.5) \<and>
   (level (getSecurityLevel False q (Some s)) = ''Excellent'') = (s > 2.5) \<and>
   (getSecurityLevel False q (Some s) = \<lparr>level = ''Good'', color = ''green'', score = 70\<rparr>)
      = (2 < s \<and> s \<le> 2.5) \<and>
   (level (getSecurityLevel False q (Some s)) = ''Good'') = (2 < s \<and> s \<le> 2.5) \<and>
   (getSecurityLevel False q (Some s) = \<lparr>level = ''Poor'', color = ''amber'', score = 35\<rparr>)
      = (1.5 < s \<and> s \<le> 2) \<and>
   (level (getSecurityLevel False q (Some s)) = ''Poor'') = (1.5 < s \<and> s \<le> 2) \<and>
   (getSecurityLevel False q (Some s) = \<lparr>level = ''Compromised'', color = ''red'', score = 10\<rparr>)
      = (s \<le> 1.5) \<and>
   (level (getSecurityLevel False q (Some s)) = ''Compromised'') = (s \<le> 1.5) \<and>
   security (E91Props r) = getSecurityLevel False None (Some (s_parameter (chsh_result r)))"
  by (auto simp add: e91_levels sParameterMetricClass_def e91_is_secure_def
      security_def isSecure_def isBB84_def qber_of_def sParameter_of_def)

text \<open>
  The amended claim C2 at the sample E91 result (\<open>S = 2.72\<close>, secure) and at
  \<open>S\<close> = 2.2, 1.8 and 1.
\<close>

theorem C2_e91_classification_witness:
  "is_secure mockE91Result = e91_is_secure (s_parameter (chsh_result mockE91Result)) \<and>
   isSecure (E91Props mockE91Result) \<and> s_parameter (chsh_result mockE91Result) > 2 \<and>
   level (security (E91Props mockE91Result)) = ''Excellent'' \<and>
   e91_is_secure 2.2 \<and> level (getSecurityLevel False None (Some 2.2)) = ''Good'' \<and>
   \<not> e91_is_secure 1.8 \<and> level (getSecurityLevel False None (Some 1.8)) = ''Poor'' \<and>
   \<not> e91_is_secure 1 \<and> level (getSecurityLevel False None (Some 1)) = ''Compromised''"
  using C2_e91_classification [of "2.72" mockE91Result None]
    C2_e91_classification [of "2.2" mockE91Result None]
    C2_e91_classification [of "1.8" mockE91Result None]
    C2_e91_classification [of 1 mockE91Result None]
  by (simp add: mockE91Result_def mockCHSHResult_def)

text \<open>
  The CHSH meter compares with the classical bound that the result carries.
  When that bound is 2.0, its three classes are those of the specification.
\<close>

lemma chsh_meter_classes:
  assumes "classical_bound c = 2"
  shows
  "(violationBadge c = ''Quantum Violation'') = (s_parameter c > 2) \<and>
   (securityBadge c = ''Strong Security'') = (s_parameter c > 2.5) \<and>
   (securityBadge c = ''Marginal Security'') = (2 < s_parameter c \<and> s_parameter c \<le> 2.5) \<and>
   (securityBadge c = ''Insecure'') = (s_parameter c \<le> 2) \<and>
   (getColor c = ''#22c55e'') = (s_parameter c > 2.5) \<and>
   (getColor c = ''#f59e0b'') = (2 < s_parameter c \<and> s_parameter c \<le> 2.5) \<and>
   (getColor c = ''#ef4444'') = (s_parameter c \<le> 2)"
  using assms by (auto simp add: violationBadge_def securityBadge_def getColor_def)

section \<open>Key match rate\<close>

lemma zip_with_positions:
  "zip xs [0..<length xs] = map (\<lambda>i. (xs ! i, i)) [0..<length xs]"
  by (rule nth_equalityI) simp_all

lemma matches_agreeing:
  assumes "length aliceKey = length bobKey"
  shows "matches aliceKey bobKey = length (agreeingPositions aliceKey bobKey)"
proof -
  have "filter (\<lambda>(bit, i). index bobKey i = Some bit) (zip aliceKey [0..<length aliceKey])
        = map (\<lambda>i. (aliceKey ! i, i))
            (filter (\<lambda>i. index bobKey i = Some (aliceKey ! i)) [0..<length aliceKey])"
    by (simp add: zip_with_positions filter_map comp_def)
  moreover have "filter (\<lambda>i. index bobKey i = Some (aliceKey ! i)) [0..<length aliceKey]
        = filter (\<lambda>i. aliceKey ! i = bobKey ! i) [0..<length aliceKey]"
    using assms by (intro filter_cong) (auto simp: index_def)
  ultimately show ?thesis
    by (simp add: matches_def agreeingPositions_def)
qed

lemma agreeing_le: "length (agreeingPositions aliceKey bobKey) \<le> length aliceKey"
  unfolding agreeingPositions_def
  by (rule order_trans [OF length_filter_le]) simp

lemma percent_of_ratio:
  fixes c n :: nat
  assumes "0 < n" "n < 2 ^ 32" "c \<le> n"
  shows "js_mul (js_div (Num (real c)) (Num (real n))) (Num 100)
           = Num (roundToDouble (roundToDouble (real c / real n) * 100))"
    and "\<bar>roundToDouble (roundToDouble (real c / real n) * 100) - 100 * real c / real n\<bar>
           \<le> (100 * real c / real n) / 2 ^ 51"
proof -
  define q where "q = real c / real n"
  define d where "d = roundToDouble q"
  define r where "r = roundToDouble (d * 100)"
  have goal: "js_mul (js_div (Num (real c)) (Num (real n))) (Num 100) = Num r
      \<and> \<bar>r - 100 * q\<bar> \<le> (100 * q) / 2 ^ 51"
  proof (cases "c = 0")
    case True
    then have "q = 0" "d = 0" "r = 0"
      by (simp_all add: q_def d_def r_def roundToDouble_def)
    then show ?thesis
      using assms(1) True by (simp add: toNumber_0)
  next
    case False
    then have c: "1 \<le> real c" by simp
    have n: "0 < real n" "real n < 2 ^ 32"
      using assms(1) apply simp
      using assms(2) by (metis of_nat_less_iff of_nat_numeral of_nat_power)
    have small: "(2::real) powi (- 1022) \<le> 1 / 2 ^ 32"
      by (simp add: power_int_minus)
    have qlo: "1 / 2 ^ 32 \<le> q"
    proof -
      have "1 / 2 ^ 32 \<le> 1 / real n"
        using n by (simp add: field_simps)
      also have "\<dots> \<le> q"
        unfolding q_def using c n by (simp add: field_simps)
      finally show ?thesis .
    qed
    have qhi: "q \<le> 1"
      unfolding q_def using assms(3) n by simp
    have qpos: "0 < q" using qlo by (simp add: order_less_le_trans)
    have dq: "\<bar>d - q\<bar> \<le> q / 2 ^ 53"
      unfolding d_def using small qlo by (intro roundToDouble_error) linarith
    moreover have "q / 2 ^ 53 \<le> q / 2"
      using qpos by (intro divide_left_mono) simp_all
    ultimately have dlo: "q / 2 \<le> d" and dhi: "d \<le> 2 * q"
      by linarith+
    have "\<bar>d\<bar> < 2 ^ 1024"
      using dlo dhi qpos qhi by simp
    then have div: "js_div (Num (real c)) (Num (real n)) = Num d"
      using n toNumber_finite [of q] by (simp add: q_def d_def)
    have "q \<le> d * 100"
      using dlo qpos by linarith
    then have plo: "2 powi (- 1022) \<le> d * 100"
      using small qlo by (rule_tac order_trans [OF _ order_trans]) auto
    have rp: "\<bar>r - d * 100\<bar> \<le> (d * 100) / 2 ^ 53"
      unfolding r_def using plo by (rule roundToDouble_error)
    moreover have dpos: "0 < d * 100"
      using dlo qpos by simp
    moreover have "(d * 100) / 2 ^ 53 \<le> (d * 100) / 2"
      using dpos by (intro divide_left_mono) simp_all
    ultimately have rhi: "r \<le> 2 * (d * 100)" and rlo: "0 \<le> r"
      by linarith+
    have "\<bar>r\<bar> < 2 ^ 1024"
      using rhi rlo dhi qhi by simp
    then have mul: "js_mul (Num d) (Num 100) = Num r"
      using toNumber_finite [of "d * 100"] by (simp add: r_def)
    have "r - 100 * q = (r - d * 100) + 100 * (d - q)"
      by (simp add: algebra_simps)
    then have "\<bar>r - 100 * q\<bar> \<le> \<bar>r - d * 100\<bar> + \<bar>100 * (d - q)\<bar>"
      by (simp only: abs_triangle_ineq)
    moreover have "\<bar>100 * (d - q)\<bar> = 100 * \<bar>d - q\<bar>"
      by (simp only: abs_mult abs_numeral)
    ultimately have "\<bar>r - 100 * q\<bar> \<le> \<bar>r - d * 100\<bar> + 100 * \<bar>d - q\<bar>"
      by (simp only:)
    also have "\<bar>r - d * 100\<bar> + 100 * \<bar>d - q\<bar> \<le> (d * 100) / 2 ^ 53 + 100 * (q / 2 ^ 53)"
      using rp dq by (intro add_mono mult_left_mono) simp_all
    also have "\<dots> \<le> (2 * q * 100) / 2 ^ 53 + 100 * (q / 2 ^ 53)"
      using dhi by (simp add: field_simps)
    also have "\<dots> \<le> (100 * q) / 2 ^ 51"
      using qpos by (simp add: field_simps)
    finally show ?thesis using div mul by simp
  qed
  show "js_mul (js_div (Num (real c)) (Num (real n))) (Num 100)
           = Num (roundToDouble (roundToDouble (real c / real n) * 100))"
    using goal by (simp add: r_def d_def q_def)
  show "\<bar>roundToDouble (roundToDouble (real c / real n) * 100) - 100 * real c / real n\<bar>
           \<le> (100 * real c / real n) / 2 ^ 51"
    using goal by (simp add: r_def d_def q_def)
qed

text \<open>
  Claim C4, as stated, asks that the match rate equal 100 times the number of
  agreeing positions divided by the key length. For two keys of 25 bits that
  agree in 7 positions that quotient is 28, while the component computes
  \<open>(7 / 25) * 100\<close> in double precision and obtains
  \<open>28 + 2^-48\<close> (printed 28.000000000000004).
\<close>

theorem C4_seven_of_25:
  "length (agreeingPositions
             [0, 0, 0, 0, 0, 0, 0, 0, 0, 0, 0, 0, 0, 0, 0, 0, 0, 0, 0, 0, 0, 0, 0, 0, 0]
             [0, 0, 0, 0, 0, 0, 0, 1, 1, 1, 1, 1, 1, 1, 1, 1, 1, 1, 1, 1, 1, 1, 1, 1, 1]) = 7 \<and>
   matchRate [0, 0, 0, 0, 0, 0, 0, 0, 0, 0, 0, 0, 0, 0, 0, 0, 0, 0, 0, 0, 0, 0, 0, 0, 0]
             [0, 0, 0, 0, 0, 0, 0, 1, 1, 1, 1, 1, 1, 1, 1, 1, 1, 1, 1, 1, 1, 1, 1, 1, 1]
     = Num (28 + 1 / 2 ^ 48) \<and>
   Num (28 + 1 / 2 ^ 48) \<noteq> Num (100 * 7 / 25)"
  by (simp add: agreeingPositions_def matchRate_def matches_def index_def upt_conv_Cons
      toNumber_def roundToDouble_def ulp_def log2floor_def roundTiesToEven_def
      compute_floorlog power_int_minus)

text \<open>
  Claim C4, amended. For every pair of equal-length sifted keys, the match rate
  is the double-precision value of \<open>(count / length) * 100\<close>, where \<open>count\<close>
  is the number of positions \<open>i\<close> with \<open>alice[i] = bob[i]\<close>: the quotient is
  rounded to a double, multiplied by 100 and rounded again. For keys that are
  not empty (an array has fewer than \<open>2^32\<close> elements) this is a finite number
  within a relative error of \<open>2^-51\<close> of \<open>100 * count / length\<close>; it is
  exactly 100 when all positions agree and exactly 0 when none does.
\<close>

theorem C4_match_rate:
  assumes "length aliceKey = length bobKey"
  shows
  "matchRate aliceKey bobKey =
     js_mul (js_div (Num (real (length (agreeingPositions aliceKey bobKey))))
                    (Num (real (length aliceKey))))
            (Num 100) \<and>
   (aliceKey \<noteq> [] \<and> length aliceKey < 2 ^ 32 \<longrightarrow>
      matchRate aliceKey bobKey =
        Num (roundToDouble
               (roundToDouble (real (length (agreeingPositions aliceKey bobKey))
                                 / real (length aliceKey)) * 100)) \<and>
      \<bar>roundToDouble
          (roundToDouble (real (length (agreeingPositions aliceKey bobKey))
                            / real (length aliceKey)) * 100)
        - 100 * real (length (agreeingPositions aliceKey bobKey)) / real (length aliceKey)\<bar>
        \<le> (100 * real (length (agreeingPositions aliceKey bobKey)) / real (length aliceKey))
             / 2 ^ 51) \<and>
   (aliceKey \<noteq> [] \<and> length (agreeingPositions aliceKey bobKey) = length aliceKey \<longrightarrow>
      matchRate aliceKey bobKey = Num 100) \<and>
   (aliceKey \<noteq> [] \<and> agreeingPositions aliceKey bobKey = [] \<longrightarrow>
      matchRate aliceKey bobKey = Num 0)"
proof -
  have m: "matches aliceKey bobKey = length (agreeingPositions aliceKey bobKey)"
    using assms by (rule matches_agreeing)
  have formula: "matchRate aliceKey bobKey =
     js_mul (js_div (Num (real (length (agreeingPositions aliceKey bobKey))))
                    (Num (real (length aliceKey))))
            (Num 100)"
    by (simp add: matchRate_def m)
  have bound: "matchRate aliceKey bobKey =
        Num (roundToDouble
               (roundToDouble (real (length (agreeingPositions aliceKey bobKey))
                                 / real (length aliceKey)) * 100)) \<and>
      \<bar>roundToDouble
          (roundToDouble (real (length (agreeingPositions aliceKey bobKey))
                            / real (length aliceKey)) * 100)
        - 100 * real (length (agreeingPositions aliceKey bobKey)) / real (length aliceKey)\<bar>
        \<le> (100 * real (length (agreeingPositions aliceKey bobKey)) / real (length aliceKey))
             / 2 ^ 51"
    if "aliceKey \<noteq> []" "length aliceKey < 2 ^ 32"
  proof -
    have "0 < length aliceKey" using that(1) by simp
    then show ?thesis
      using percent_of_ratio [OF _ that(2) agreeing_le [of aliceKey bobKey]] formula
      by simp
  qed
  have full: "matchRate aliceKey bobKey = Num 100"
    if "aliceKey \<noteq> []" "length (agreeingPositions aliceKey bobKey) = length aliceKey"
    using that by (simp add: formula toNumber_1 toNumber_100)
  have none: "matchRate aliceKey bobKey = Num 0"
    if "aliceKey \<noteq> []" "agreeingPositions aliceKey bobKey = []"
    using that by (simp add: formula toNumber_0)
  show ?thesis
    using formula bound full none by blast
qed

text \<open>
  The amended claim C4 at keys of four bits agreeing in three positions, at
  equal keys and at keys that agree nowhere.
\<close>

theorem C4_match_rate_witness:
  "length [0, 1, 1, 0 :: int] = length [0, 1, 0, 0 :: int] \<and>
   [0, 1, 1, 0 :: int] \<noteq> [] \<and> length [0, 1, 1, 0 :: int] < 2 ^ 32 \<and>
   matchRate [0, 1, 1, 0] [0, 1, 0, 0] = Num 75 \<and>
   length (agreeingPositions [0, 1, 1] [0, 1, 1]) = length [0, 1, 1 :: int] \<and>
   matchRate [0, 1, 1] [0, 1, 1] = Num 100 \<and>
   agreeingPositions [0, 1] [1, 0] = [] \<and>
   matchRate [0, 1] [1, 0] = Num 0"
  using C4_match_rate [of "[0, 1, 1, 0]" "[0, 1, 0, 0]"]
    C4_match_rate [of "[0, 1, 1]" "[0, 1, 1]"] C4_match_rate [of "[0, 1]" "[1, 0]"]
  by (simp add: agreeingPositions_def upt_conv_Cons toNumber_def roundToDouble_def ulp_def
      log2floor_def roundTiesToEven_def compute_floorlog power_int_minus)

text \<open>
  Claim C10. With empty key arrays (no sifted bit) the match count is 0 and
  the key length is 0, so the unguarded division \<open>matches / aliceKey.length\<close>
  is \<open>0 / 0\<close> and the match rate is NaN.
\<close>

theorem C10_empty_keys_nan:
  "matches [] [] = 0 \<and> length ([] :: int list) = 0 \<and> matchRate [] [] = NaN"
  by (simp add: matchRate_def matches_def)

section \<open>Parsing the quantum key and the key length check\<close>

lemma parseInt10_bits: "parseInt10 [0x30] = Num 0" "parseInt10 [0x31] = Num 1"
  by (simp_all add: parseInt10_def isWhiteSpace_def isDigit_def digitsValue_def toNumber_def
      roundToDouble_def ulp_def log2floor_def roundTiesToEven_def compute_floorlog
      power_int_minus)

lemma parseKey_map:
  "parseKey keyStr =
     map (\<lambda>t. if t = [0x30] then Num 0 else Num 1)
         (filter (\<lambda>s. s = [0x30] \<or> s = [0x31]) (splitSeparators keyStr))"
  unfolding parseKey_def
  by (rule map_cong) (auto simp: parseInt10_bits)





lemma splitFrom_onesKey:
  "splitFrom True [] (onesKey n) = replicate n [0x31] @ [[]]"
  by (induction n) (simp_all add: onesKey_def isSeparator_def isWhiteSpace_def)

lemma splitSeparators_onesKey:
  "splitSeparators (onesKey n) = replicate n [0x31] @ [[]]"
  by (cases n) (simp_all add: splitSeparators_def onesKey_def isSeparator_def isWhiteSpace_def
      splitFrom_onesKey [unfolded onesKey_def])

lemma parseKey_onesKey: "parseKey (onesKey n) = replicate n (Num 1)"
  by (simp add: parseKey_map splitSeparators_onesKey)

text \<open>
  Claim C3. When the parsed key has fewer than 128 bits, \<open>handleEncrypt\<close> and
  \<open>handleDecrypt\<close> both end with the key-too-short message in \<open>error\<close> and the
  list of requests sent is unchanged; when it has at least 128 bits, each of
  them sends its one request to the crypto service with the parsed bits.
  \<open>keyReady\<close> is the same test.
\<close>

theorem C3_key_length_check:
  "(length (parseKey (quantumKey page)) < 128 \<longrightarrow>
      handleEncrypt be (page, sent) =
        (page\<lparr>EncryptionPage.error := Some (keyTooShort (length (parseKey (quantumKey page)))),
              isProcessing := False\<rparr>, sent) \<and>
      handleDecrypt bd (page, sent) =
        (page\<lparr>EncryptionPage.error := Some (keyTooShort (length (parseKey (quantumKey page)))),
              isProcessing := False\<rparr>, sent)) \<and>
   (128 \<le> length (parseKey (quantumKey page)) \<longrightarrow>
      snd (handleEncrypt be (page, sent)) =
        sent @ [PostCryptoEncrypt (parseKey (quantumKey page)) (inputText page)
                  (if keySize page = 0 then 256 else keySize page)] \<and>
      snd (handleDecrypt bd (page, sent)) =
        sent @ [PostCryptoDecrypt (parseKey (quantumKey page)) (inputText page)
                  (EncryptionPage.iv page) (if keySize page = 0 then 256 else keySize page)]) \<and>
   keyReady page = (128 \<le> length (parseKey (quantumKey page)))"
  by (auto simp add: handleEncrypt_def handleDecrypt_def Let_def keyReady_def
      cryptoService_encrypt_def cryptoService_decrypt_def split: sum.splits)

text \<open>Claim C3 at a key of 127 ones and at a key of 128 ones.\<close>

theorem C3_key_length_check_witness:
  "length (parseKey (quantumKey (initialEncryptionPage\<lparr>quantumKey := onesKey 127\<rparr>))) < 128 \<and>
   handleEncrypt unreachableEncrypt (initialEncryptionPage\<lparr>quantumKey := onesKey 127\<rparr>, []) =
     (initialEncryptionPage\<lparr>quantumKey := onesKey 127,
        EncryptionPage.error := Some ''Key too short: 127 bits. Need at least 128 bits.''\<rparr>, []) \<and>
   handleDecrypt unreachableDecrypt (initialEncryptionPage\<lparr>quantumKey := onesKey 127\<rparr>, []) =
     (initialEncryptionPage\<lparr>quantumKey := onesKey 127,
        EncryptionPage.error := Some ''Key too short: 127 bits. Need at least 128 bits.''\<rparr>, []) \<and>
   128 \<le> length (parseKey (quantumKey (initialEncryptionPage\<lparr>quantumKey := onesKey 128\<rparr>))) \<and>
   snd (handleEncrypt unreachableEncrypt (initialEncryptionPage\<lparr>quantumKey := onesKey 128\<rparr>, [])) =
     [PostCryptoEncrypt (replicate 128 (Num 1)) [] 256] \<and>
   snd (handleDecrypt unreachableDecrypt (initialEncryptionPage\<lparr>quantumKey := onesKey 128\<rparr>, [])) =
     [PostCryptoDecrypt (replicate 128 (Num 1)) [] [] 256]"
  using C3_key_length_check [of "initialEncryptionPage\<lparr>quantumKey := onesKey 127\<rparr>"
          unreachableEncrypt "[]" unreachableDecrypt]
        C3_key_length_check [of "initialEncryptionPage\<lparr>quantumKey := onesKey 128\<rparr>"
          unreachableEncrypt "[]" unreachableDecrypt]
  by (simp add: parseKey_onesKey keyTooShort_def initialEncryptionPage_def)

section \<open>Running a simulation\<close>

text \<open>
  Claim C6. A run of \<open>runBB84Simulation\<close> (respectively \<open>runE91Simulation\<close>)
  sends exactly one request, whatever the outcome. When the call fails, the
  store ends with status \<open>error\<close>, with \<open>error\<close> set to the message of the
  failure (for a thrown \<open>Error\<close> its \<open>message\<close>; the text "Simulation failed"
  for a thrown value that is not an \<open>Error\<close>) and with the result \<open>null\<close>. When
  it succeeds, the store ends with status \<open>completed\<close> and the result stored.
\<close>

theorem C6_run_once:
  "snd (runBB84Simulation backend (state, sent)) = sent @ [PostBB84Simulate (bb84Config state)] \<and>
   (backend (bb84Config state) = Inl err \<longrightarrow>
      fst (runBB84Simulation backend (state, sent)) =
        state\<lparr>status := Error, SimulationStore.error := Some (simulationMessage err),
              bb84Result := None\<rparr>) \<and>
   (backend (bb84Config state) = Inr res \<longrightarrow>
      fst (runBB84Simulation backend (state, sent)) =
        state\<lparr>status := Completed, SimulationStore.error := None, bb84Result := Some res\<rparr>) \<and>
   snd (runE91Simulation backend' (state, sent)) = sent @ [PostE91Simulate (e91Config state)] \<and>
   (backend' (e91Config state) = Inl err \<longrightarrow>
      fst (runE91Simulation backend' (state, sent)) =
        state\<lparr>status := Error, SimulationStore.error := Some (simulationMessage err),
              e91Result := None\<rparr>) \<and>
   (backend' (e91Config state) = Inr res' \<longrightarrow>
      fst (runE91Simulation backend' (state, sent)) =
        state\<lparr>status := Completed, SimulationStore.error := None, e91Result := Some res'\<rparr>) \<and>
   simulationMessage (ErrorInstance m) = m"
  by (simp add: runBB84Simulation_def runE91Simulation_def bb84Service_simulate_def
      e91Service_simulate_def Let_def simulationMessage_def split: sum.splits)

text \<open>Claim C6 at the initial store, with a failing and with an answering backend.\<close>

theorem C6_run_once_witness:
  "failingBB84Backend (bb84Config initialStore) = Inl (ErrorInstance ''Network Error'') \<and>
   runBB84Simulation failingBB84Backend (initialStore, []) =
     (initialStore\<lparr>status := Error, SimulationStore.error := Some ''Network Error''\<rparr>,
      [PostBB84Simulate defaultBB84Config]) \<and>
   mockBB84Backend (bb84Config initialStore) = Inr mockBB84Result \<and>
   runBB84Simulation mockBB84Backend (initialStore, []) =
     (initialStore\<lparr>status := Completed, bb84Result := Some mockBB84Result\<rparr>,
      [PostBB84Simulate defaultBB84Config]) \<and>
   failingE91Backend (e91Config initialStore) = Inl (ErrorInstance ''Network Error'') \<and>
   runE91Simulation failingE91Backend (initialStore, []) =
     (initialStore\<lparr>status := Error, SimulationStore.error := Some ''Network Error''\<rparr>,
      [PostE91Simulate defaultE91Config]) \<and>
   mockE91Backend (e91Config initialStore) = Inr mockE91Result \<and>
   runE91Simulation mockE91Backend (initialStore, []) =
     (initialStore\<lparr>status := Completed, e91Result := Some mockE91Result\<rparr>,
      [PostE91Simulate defaultE91Config])"
  using C6_run_once [of failingBB84Backend initialStore "[]" "ErrorInstance ''Network Error''"
          mockBB84Result failingE91Backend mockE91Result "''Network Error''"]
        C6_run_once [of mockBB84Backend initialStore "[]" "ErrorInstance ''Network Error''"
          mockBB84Result mockE91Backend mockE91Result "''Network Error''"]
  by (simp add: failingBB84Backend_def failingE91Backend_def mockBB84Backend_def
      mockE91Backend_def initialStore_def simulationMessage_def prod_eq_iff)

section \<open>Configurations reachable through the pages\<close>

lemma run_keeps_configs:
  "bb84Config (fst (runBB84Simulation backend app)) = bb84Config (fst app)"
  "e91Config (fst (runBB84Simulation backend app)) = e91Config (fst app)"
  "bb84Config (fst (runE91Simulation backend' app)) = bb84Config (fst app)"
  "e91Config (fst (runE91Simulation backend' app)) = e91Config (fst app)"
  by (simp_all add: runBB84Simulation_def runE91Simulation_def Let_def split: sum.splits)

lemma onClickBasis_nonempty:
  "bases (bb84Config state) \<noteq> [] \<Longrightarrow> bases (bb84Config (onClickBasis basis state)) \<noteq> []"
  by (simp add: onClickBasis_def Let_def updateBB84Config_def spreadBB84_def noBB84Change_def)

lemma onClickBasis_other_fields:
  "n_qubits (bb84Config (onClickBasis basis state)) = n_qubits (bb84Config state)"
  "e91Config (onClickBasis basis state) = e91Config state"
  by (simp_all add: onClickBasis_def Let_def updateBB84Config_def spreadBB84_def noBB84Change_def)

lemma bb84PageStep_invariant:
  "configInvariant (fst app) \<Longrightarrow> configInvariant (fst (bb84PageStep app e))"
  by (cases app; cases e)
    (auto simp add: configInvariant_def run_keeps_configs onClickBasis_nonempty
      onClickBasis_other_fields updateBB84Config_def spreadBB84_def noBB84Change_def
      clearResults_def qubitButtons_def)

lemma e91PageStep_invariant:
  "configInvariant (fst app) \<Longrightarrow> configInvariant (fst (e91PageStep app e))"
  by (cases app; cases e)
    (auto simp add: configInvariant_def run_keeps_configs updateE91Config_def spreadE91_def
      noE91Change_def clearResults_def pairButtons_def)

lemma uiStep_invariant:
  "configInvariant (fst app) \<Longrightarrow> configInvariant (fst (uiStep app e))"
  by (cases e) (simp_all add: bb84PageStep_invariant e91PageStep_invariant,
      simp add: configInvariant_def setProtocol_def)

lemma foldl_uiStep_invariant:
  "configInvariant (fst app) \<Longrightarrow> configInvariant (fst (foldl uiStep app events))"
  by (induction events arbitrary: app) (simp_all add: uiStep_invariant)

lemma session_invariant: "configInvariant (fst (session events))"
  unfolding session_def
  by (rule foldl_uiStep_invariant)
    (simp add: configInvariant_def initialStore_def defaultBB84Config_def defaultE91Config_def)

text \<open>
  The pages offer only the qubit counts 9, 12, 16 and the pair counts 6, 9, 12:
  after any sequence of user events the stored counts are among them. (The
  store itself keeps any count it is given.)
\<close>

lemma pages_offer_supported_counts:
  "n_qubits (bb84Config (fst (session events))) \<in> {9, 12, 16} \<and>
   n_pairs (e91Config (fst (session events))) \<in> {6, 9, 12}"
  using session_invariant [of events] by (simp add: configInvariant_def)

text \<open>
  Claim C7. A BB84 configuration whose qubit count is not 9, 12 or 16, and an
  E91 configuration whose pair count is not 6, 9 or 12, fails validation with
  \<open>ConfigError\<close>, and the request ends with that error and the random source
  as it was: nothing has been drawn, whatever the later stages would do.
\<close>

theorem C7_config_rejected_first:
  "(n_qubits config \<notin> {9, 12, 16} \<longrightarrow>
      validateBB84Config config = Inl ConfigError \<and>
      simulateBB84 stages config source = (Inl ConfigError, source)) \<and>
   (n_pairs config' \<notin> {6, 9, 12} \<longrightarrow>
      validateE91Config config' = Inl ConfigError \<and>
      simulateE91 stages' config' source = (Inl ConfigError, source))"
  by (simp add: simulateBB84_def simulateE91_def validateBB84Config_def validateE91Config_def)

text \<open>
  Claim C7 at the default configurations with 20 qubits and with 7 pairs: the
  source has still delivered nothing, while the default BB84 configuration
  passes validation and the stage draws its value.
\<close>

theorem C7_config_rejected_first_witness:
  "n_qubits (defaultBB84Config\<lparr>n_qubits := 20\<rparr>) \<notin> {9, 12, 16} \<and>
   simulateBB84 drawOneStage (defaultBB84Config\<lparr>n_qubits := 20\<rparr>) countingSource
     = (Inl ConfigError, countingSource) \<and>
   n_pairs (defaultE91Config\<lparr>n_pairs := 7\<rparr>) \<notin> {6, 9, 12} \<and>
   simulateE91 drawOneStage (defaultE91Config\<lparr>n_pairs := 7\<rparr>) countingSource
     = (Inl ConfigError, countingSource) \<and>
   drawn countingSource = 0 \<and>
   drawn (snd (simulateBB84 drawOneStage defaultBB84Config countingSource)) = 1"
proof -
  have "drawn (snd (simulateBB84 drawOneStage defaultBB84Config countingSource)) = 1"
    by (simp add: simulateBB84_def validateBB84Config_def defaultBB84Config_def
        drawOneStage_def draw_def countingSource_def)
  then show ?thesis
    using C7_config_rejected_first [of "defaultBB84Config\<lparr>n_qubits := 20\<rparr>"
        "drawOneStage :: BB84Config \<Rightarrow> RandomSource \<Rightarrow> (EngineError + nat) \<times> RandomSource"
        countingSource "defaultE91Config\<lparr>n_pairs := 7\<rparr>"
        "drawOneStage :: E91Config \<Rightarrow> RandomSource \<Rightarrow> (EngineError + nat) \<times> RandomSource"]
    by (simp add: countingSource_def)
qed

text \<open>
  Claim C9. A click on a basis button keeps the list of bases non-empty; a
  deselection that would leave no basis changes nothing; after any sequence of
  user events from the initial store, \<open>bb84Config.bases\<close> is non-empty.
\<close>

theorem C9_bases_never_empty:
  "(bases (bb84Config state) \<noteq> [] \<longrightarrow> bases (bb84Config (onClickBasis basis state)) \<noteq> []) \<and>
   (basis \<in> set (bases (bb84Config state)) \<and>
    filter (\<lambda>b. b \<noteq> basis) (bases (bb84Config state)) = [] \<longrightarrow>
      onClickBasis basis state = state) \<and>
   bases (bb84Config (fst (session events))) \<noteq> []"
  using session_invariant [of events] onClickBasis_nonempty [of state basis]
  by (simp add: configInvariant_def onClickBasis_def Let_def)

text \<open>
  Claim C9 after deselecting X (the bases are then just Z): deselecting Z
  changes nothing.
\<close>

theorem C9_bases_never_empty_witness:
  "bases (bb84Config (fst (session [OnBB84Page (ClickBasis X)]))) = [Z] \<and>
   onClickBasis Z (fst (session [OnBB84Page (ClickBasis X)])) = fst (session [OnBB84Page (ClickBasis X)]) \<and>
   bases (bb84Config (fst (session [OnBB84Page (ClickBasis X), OnBB84Page (ClickBasis Z)]))) = [Z]"
proof -
  have s: "bases (bb84Config (fst (session [OnBB84Page (ClickBasis X)]))) = [Z]"
    by (simp add: session_def initialStore_def defaultBB84Config_def isRunning_def
        basisButtons_def onClickBasis_def Let_def updateBB84Config_def spreadBB84_def
        noBB84Change_def)
  have same: "onClickBasis Z (fst (session [OnBB84Page (ClickBasis X)]))
      = fst (session [OnBB84Page (ClickBasis X)])"
    using C9_bases_never_empty [of "fst (session [OnBB84Page (ClickBasis X)])" Z "[]"]
    by (simp add: s)
  have "session [OnBB84Page (ClickBasis X), OnBB84Page (ClickBasis Z)]
      = bb84PageStep (session [OnBB84Page (ClickBasis X)]) (ClickBasis Z)"
    by (simp add: session_def)
  then have "fst (session [OnBB84Page (ClickBasis X), OnBB84Page (ClickBasis Z)])
      = fst (session [OnBB84Page (ClickBasis X)])"
    using same by (cases "session [OnBB84Page (ClickBasis X)]") (simp split: if_splits)
  then show ?thesis
    using s same by simp
qed

end
